theory Spec2Isabelle
  imports Main
begin

section \<open>JavaScript values and truthiness\<close>

text \<open>
  The key validation of \<^verbatim>\<open>table.ts\<close> tests its operands with \<^verbatim>\<open>!x\<close> and
  \<^verbatim>\<open>x && y\<close>, that is, by JavaScript truthiness. The primitive values a key component
  can hold are modelled by a datatype; \<open>JUndefined\<close> is the value of a property that
  was not supplied. Numbers are modelled by integers, with \<open>JNaN\<close> apart: only the
  test against zero matters here.
\<close>

datatype jsval = JUndefined | JNull | JBool bool | JNum int | JNaN | JStr string

fun truthy :: "jsval \<Rightarrow> bool" where
  "truthy JUndefined = False"
| "truthy JNull = False"
| "truthy (JBool b) = b"
| "truthy (JNum n) = (n \<noteq> 0)"
| "truthy JNaN = False"
| "truthy (JStr s) = (s \<noteq> [])"

text \<open>Truthiness of an optional string (\<^verbatim>\<open>name?: string\<close>): \<open>None\<close> is \<^verbatim>\<open>undefined\<close>.\<close>

fun truthy_string :: "string option \<Rightarrow> bool" where
  "truthy_string None = False"
| "truthy_string (Some s) = (s \<noteq> [])"

text \<open>A plain object \<^verbatim>\<open>Record<string, unknown>\<close>, by its own properties.\<close>

type_synonym jsobject = "string \<rightharpoonup> jsval"

section \<open>Data model\<close>

text \<open>
  \<^verbatim>\<open>PrimaryKeyWithoutExpression\<close>: the object whose \<^verbatim>\<open>pk\<close> and \<^verbatim>\<open>sk\<close> properties
  \<^verbatim>\<open>validateKey\<close> and \<^verbatim>\<open>buildKeyFromIndex\<close> read.
\<close>

record primary_key =
  pk :: jsval
  sk :: jsval

text \<open>\<^verbatim>\<open>TableIndexConfig\<close>: the attribute names of one index; \<^verbatim>\<open>skName\<close> is optional.\<close>

record table_index_config =
  pkName :: string
  skName :: "string option"

text \<open>An expression with its placeholder maps: \<^verbatim>\<open>{expression, names?, values?}\<close>
  (\<open>values\<close> is a command name, hence the field \<open>values'\<close>).\<close>

record compiled_expression =
  expression :: string
  names :: "(string \<rightharpoonup> string) option"
  values' :: "jsobject option"

text \<open>
  What \<^verbatim>\<open>ExpressionBuilder.createExpression\<close> returns, by the properties \<^verbatim>\<open>scan\<close>
  reads: \<^verbatim>\<open>filterResult.expression\<close>, \<^verbatim>\<open>filterResult.attributes.names\<close> and
  \<^verbatim>\<open>filterResult.attributes.values\<close>.
\<close>

record expression_attributes =
  attr_names :: "(string \<rightharpoonup> string) option"
  attr_values :: "jsobject option"

record expression_result =
  result_expression :: string
  attributes :: expression_attributes

text \<open>Errors thrown: \<^verbatim>\<open>new Error(message)\<close>, and the runtime's \<^verbatim>\<open>TypeError\<close>
  for a property read on \<^verbatim>\<open>undefined\<close>.\<close>

datatype error = Error string | TypeError

text \<open>
  The table object. The field \<open>indexes\<close> holds the own entries of the record of
  index configurations; what a property read on that record yields is \<open>index_read\<close>
  below. The expression builder is external to \<^verbatim>\<open>table.ts\<close>: its
  \<^verbatim>\<open>createExpression\<close> is a parameter, over any type \<open>'f\<close> of filter conditions,
  and may throw.
\<close>

record 'f table =
  indexes :: "string \<rightharpoonup> table_index_config"
  createExpression :: "'f list \<Rightarrow> error + expression_result"

text \<open>
  The reads \<^verbatim>\<open>this.indexes[indexName]\<close> and \<^verbatim>\<open>this.indexes.primary\<close> go through
  the prototype chain of the record, an ordinary object: a name with no entry of its
  own that is a property of the object prototype yields the inherited value (a function,
  or the prototype itself for \<^verbatim>\<open>__proto__\<close>), which is truthy and has neither a
  \<^verbatim>\<open>pkName\<close> nor an \<^verbatim>\<open>skName\<close>. Any other name with no entry yields
  \<^verbatim>\<open>undefined\<close>, here \<open>None\<close>.
\<close>

datatype index_entry = Configured table_index_config | Inherited

definition object_prototype_names :: "string list" where
  "object_prototype_names =
     [''constructor'', ''hasOwnProperty'', ''isPrototypeOf'', ''propertyIsEnumerable'',
      ''toLocaleString'', ''toString'', ''valueOf'', ''__proto__'',
      ''__defineGetter__'', ''__defineSetter__'', ''__lookupGetter__'',
      ''__lookupSetter__'']"

definition index_read :: "'f table \<Rightarrow> string \<Rightarrow> index_entry option" where
  "index_read t name =
     (case indexes t name of
        Some c \<Rightarrow> Some (Configured c)
      | None \<Rightarrow> if name \<in> set object_prototype_names then Some Inherited else None)"

text \<open>
  The reads \<^verbatim>\<open>indexConfig.pkName\<close> and \<^verbatim>\<open>indexConfig.skName\<close> on such a value,
  and the name a computed property key \<^verbatim>\<open>[x]\<close> gets: \<^verbatim>\<open>undefined\<close> becomes the
  name \<^verbatim>\<open>"undefined"\<close>.
\<close>

fun entry_pkName :: "index_entry \<Rightarrow> string option" where
  "entry_pkName (Configured c) = Some (pkName c)"
| "entry_pkName Inherited = None"

fun entry_skName :: "index_entry \<Rightarrow> string option" where
  "entry_skName (Configured c) = skName c"
| "entry_skName Inherited = None"

fun property_name :: "string option \<Rightarrow> string" where
  "property_name None = ''undefined''"
| "property_name (Some s) = s"

text \<open>The options of \<^verbatim>\<open>get\<close> and of \<^verbatim>\<open>scan\<close>.\<close>

record get_options =
  get_indexName :: "string option"

record scan_options =
  scan_limit :: "int option"
  scan_pageKey :: "jsobject option"
  scan_indexName :: "string option"

text \<open>
  \<^verbatim>\<open>BatchWriteOperation\<close>, the input of \<^verbatim>\<open>batchWrite\<close>: an object with a \<^verbatim>\<open>type\<close>
  tag, an \<^verbatim>\<open>item\<close> and a \<^verbatim>\<open>key\<close> (a property that is not there reads as \<open>None\<close>).
\<close>

record batch_write_operation =
  bw_type :: string
  bw_item :: "jsobject option"
  bw_key :: "primary_key option"

text \<open>The entries \<^verbatim>\<open>{put: item}\<close> and \<^verbatim>\<open>{delete: key}\<close> that \<^verbatim>\<open>batchWrite\<close> builds.\<close>

datatype batch_request =
    PutRequest "jsobject option"
  | DeleteRequest "primary_key option"

text \<open>
  One entry of \<^verbatim>\<open>transactWrite\<close>: \<^verbatim>\<open>{put?, delete?, update?}\<close>, with
  \<^verbatim>\<open>put = {item, condition?}\<close>, \<^verbatim>\<open>delete = {key, condition?}\<close> and
  \<^verbatim>\<open>update = {key, update, condition?}\<close>.
\<close>

datatype transact_put = TransactPut jsobject "compiled_expression option"
datatype transact_delete = TransactDelete primary_key "compiled_expression option"
datatype transact_update =
  TransactUpdate primary_key compiled_expression "compiled_expression option"
datatype transact_item =
  TransactItem "transact_put option" "transact_delete option" "transact_update option"

text \<open>The \<^verbatim>\<open>operations\<close> property of a batch or of a transaction.\<close>

datatype write_operations =
    BatchOperations "batch_request list"
  | TransactOperations "transact_item list"

datatype sort_direction = Ascending | Descending

text \<open>
  \<^verbatim>\<open>DynamoOperation\<close> as \<^verbatim>\<open>executeOperation\<close> receives it at run time: an object
  with a \<^verbatim>\<open>type\<close> tag and the properties the branches read, each \<open>None\<close> when the
  object does not have it (the fields carry the prefix \<open>op_\<close>). The declared
  union allows the six tags of \<open>operation_types\<close> below.

  Modelled from the spec: the declaration of \<^verbatim>\<open>DynamoQueryOperation\<close> is not among the
  sources. The fields \<open>op_sortDirection\<close> and \<open>op_pageCursor\<close> stand for what the spec's
  Query Builder accumulates besides key condition, filter, limit and index: ``sort
  direction (ascending/descending), and pagination cursor (opaque last-evaluated-key
  object)'', configured via \<^verbatim>\<open>.sortDescending()\<close> and \<^verbatim>\<open>.startFrom(pageCursor)\<close>.
\<close>

record dynamo_operation =
  op_type :: string
  op_item :: "jsobject option"
  op_condition :: "compiled_expression option"
  op_key :: "primary_key option"
  op_update :: "compiled_expression option"
  op_keyCondition :: "compiled_expression option"
  op_filter :: "compiled_expression option"
  op_limit :: "int option"
  op_indexName :: "string option"
  op_operations :: "write_operations option"
  op_sortDirection :: "sort_direction option"
  op_pageCursor :: "jsobject option"

definition operation_types :: "string list" where
  "operation_types =
     [''put'', ''update'', ''delete'', ''query'', ''batchWrite'', ''transactWrite'']"

text \<open>An operation object with a tag and no other property.\<close>

definition empty_operation :: "string \<Rightarrow> dynamo_operation" where
  "empty_operation t =
     \<lparr>op_type = t, op_item = None, op_condition = None, op_key = None,
      op_update = None, op_keyCondition = None, op_filter = None, op_limit = None,
      op_indexName = None, op_operations = None, op_sortDirection = None,
      op_pageCursor = None\<rparr>"

section \<open>The store service\<close>

text \<open>
  \<^verbatim>\<open>DynamoService\<close> is external to \<^verbatim>\<open>table.ts\<close>. Each of the methods modelled
  below either throws before reaching it or makes one call to it and returns what the
  call yields (\<^verbatim>\<open>get\<close>: the \<^verbatim>\<open>Item\<close> of it); the model returns that call, with
  the arguments it is given, as a value. A result \<open>Inl e\<close> is an error thrown with no
  call made; \<open>Inr c\<close> is the call \<open>c\<close> handed to the service. The methods
  \<^verbatim>\<open>put\<close>, \<^verbatim>\<open>update\<close> and \<^verbatim>\<open>query\<close> of \<^verbatim>\<open>Table\<close> only construct builders,
  which are external too; the operations the builders hand back arrive at
  \<^verbatim>\<open>executeOperation\<close>.
\<close>

datatype service_call =
    ServiceGet jsobject "get_options option"
      \<comment> \<open>\<^verbatim>\<open>get(keyObject, options)\<close>\<close>
  | ServicePut "jsobject option" "compiled_expression option"
      \<comment> \<open>\<^verbatim>\<open>put({item, condition})\<close>\<close>
  | ServiceUpdate "primary_key option" "compiled_expression option"
      "compiled_expression option" string
      \<comment> \<open>\<^verbatim>\<open>update({key, update, condition, returnValues})\<close>\<close>
  | ServiceQuery "compiled_expression option" "compiled_expression option"
      "int option" "string option"
      \<comment> \<open>\<^verbatim>\<open>query({keyCondition, filter, limit, indexName})\<close>\<close>
  | ServiceDelete "primary_key option"
      \<comment> \<open>\<^verbatim>\<open>delete({key})\<close>\<close>
  | ServiceBatchWrite "write_operations option"
  | ServiceTransactWrite "write_operations option"
  | ServiceScan "compiled_expression option" "int option" "jsobject option"
      "string option"
      \<comment> \<open>\<^verbatim>\<open>scan({filter, limit, pageKey, indexName})\<close>\<close>

text \<open>The name of the service method a call goes to.\<close>

fun service_method :: "service_call \<Rightarrow> string" where
  "service_method (ServiceGet _ _) = ''get''"
| "service_method (ServicePut _ _) = ''put''"
| "service_method (ServiceUpdate _ _ _ _) = ''update''"
| "service_method (ServiceQuery _ _ _ _) = ''query''"
| "service_method (ServiceDelete _) = ''delete''"
| "service_method (ServiceBatchWrite _) = ''batchWrite''"
| "service_method (ServiceTransactWrite _) = ''transactWrite''"
| "service_method (ServiceScan _ _ _ _) = ''scan''"

section \<open>The methods of Table\<close>

text \<open>
  \<^verbatim>\<open>getIndexConfig(indexName?)\<close>. The result \<open>Inr None\<close> is the value
  \<^verbatim>\<open>undefined\<close>, returned when \<^verbatim>\<open>this.indexes.primary\<close> is not there. Every
  value \<open>index_read\<close> finds is an object or a function, hence truthy in the test
  \<^verbatim>\<open>if (this.indexes[indexName])\<close>.
\<close>

definition getIndexConfig ::
  "'f table \<Rightarrow> string option \<Rightarrow> error + index_entry option" where
  "getIndexConfig t indexName =
     (if \<not> truthy_string indexName then Inr (index_read t ''primary'')
      else case index_read t (the indexName) of
             Some v \<Rightarrow> Inr (Some v)
           | None \<Rightarrow> Inl (Error (''Index '' @ the indexName @ '' does not exist'')))"

text \<open>
  \<^verbatim>\<open>validateKey(key, indexConfig)\<close>. With \<^verbatim>\<open>indexConfig\<close> undefined, the first test
  reads the key only; the next one reads \<^verbatim>\<open>indexConfig.skName\<close>, whichever way
  \<^verbatim>\<open>key.sk\<close> goes, and that read throws.
\<close>

definition validateKey :: "primary_key \<Rightarrow> index_entry option \<Rightarrow> error + unit" where
  "validateKey key indexConfig =
     (if \<not> truthy (pk key) then Inl (Error ''Partition key is required'')
      else case indexConfig of
        None \<Rightarrow> Inl TypeError
      | Some v \<Rightarrow>
          if truthy (sk key) \<and> \<not> truthy_string (entry_skName v)
          then Inl (Error ''Sort key provided but index does not support sort keys'')
          else if \<not> truthy (sk key) \<and> truthy_string (entry_skName v)
          then Inl (Error ''Index requires a sort key but none was provided'')
          else Inr ())"

text \<open>\<^verbatim>\<open>buildKeyFromIndex(key, indexConfig)\<close>.\<close>

definition buildKeyFromIndex ::
  "primary_key \<Rightarrow> index_entry option \<Rightarrow> error + jsobject" where
  "buildKeyFromIndex key indexConfig =
     (case validateKey key indexConfig of
        Inl e \<Rightarrow> Inl e
      | Inr _ \<Rightarrow>
          (case indexConfig of
             None \<Rightarrow> Inl TypeError
           | Some v \<Rightarrow>
               let keyObject = [property_name (entry_pkName v) \<mapsto> pk key]
               in if truthy_string (entry_skName v) \<and> truthy (sk key)
                  then Inr (keyObject(the (entry_skName v) \<mapsto> sk key))
                  else Inr keyObject))"

text \<open>\<^verbatim>\<open>executeOperation(operation)\<close>: the switch on \<^verbatim>\<open>operation.type\<close>.\<close>

definition executeOperation :: "dynamo_operation \<Rightarrow> error + service_call" where
  "executeOperation operation =
     (if op_type operation = ''put''
        then Inr (ServicePut (op_item operation) (op_condition operation))
      else if op_type operation = ''update''
        then Inr (ServiceUpdate (op_key operation) (op_update operation) (op_condition operation)
                    ''ALL_NEW'')
      else if op_type operation = ''query''
        then Inr (ServiceQuery (op_keyCondition operation) (op_filter operation)
                    (op_limit operation) (op_indexName operation))
      else if op_type operation = ''delete''
        then Inr (ServiceDelete (op_key operation))
      else if op_type operation = ''batchWrite''
        then Inr (ServiceBatchWrite (op_operations operation))
      else if op_type operation = ''transactWrite''
        then Inr (ServiceTransactWrite (op_operations operation))
      else Inl (Error ''Unknown operation type''))"

text \<open>\<^verbatim>\<open>get(key, options?)\<close>; \<^verbatim>\<open>options?.indexName\<close> is \<open>options_indexName\<close>.\<close>

definition options_indexName :: "get_options option \<Rightarrow> string option" where
  "options_indexName options = (case options of None \<Rightarrow> None | Some o' \<Rightarrow> get_indexName o')"

definition get :: "'f table \<Rightarrow> primary_key \<Rightarrow> get_options option \<Rightarrow> error + service_call" where
  "get t key options =
     (case getIndexConfig t (options_indexName options) of
        Inl e \<Rightarrow> Inl e
      | Inr indexConfig \<Rightarrow>
          (case buildKeyFromIndex key indexConfig of
             Inl e \<Rightarrow> Inl e
           | Inr keyObject \<Rightarrow> Inr (ServiceGet keyObject options)))"

text \<open>\<^verbatim>\<open>delete(key)\<close>.\<close>

definition delete :: "'f table \<Rightarrow> primary_key \<Rightarrow> error + service_call" where
  "delete t key = executeOperation ((empty_operation ''delete'')\<lparr>op_key := Some key\<rparr>)"

text \<open>The reads \<^verbatim>\<open>options?.limit\<close>, \<^verbatim>\<open>options?.pageKey\<close> and \<^verbatim>\<open>options?.indexName\<close>.\<close>

definition options_limit :: "scan_options option \<Rightarrow> int option" where
  "options_limit options = (case options of None \<Rightarrow> None | Some o' \<Rightarrow> scan_limit o')"

definition options_pageKey :: "scan_options option \<Rightarrow> jsobject option" where
  "options_pageKey options = (case options of None \<Rightarrow> None | Some o' \<Rightarrow> scan_pageKey o')"

definition options_scan_indexName :: "scan_options option \<Rightarrow> string option" where
  "options_scan_indexName options =
     (case options of None \<Rightarrow> None | Some o' \<Rightarrow> scan_indexName o')"

text \<open>
  \<^verbatim>\<open>scan(filters?, options?)\<close>. The test \<^verbatim>\<open>filters?.length\<close> fails for an absent list
  and for an empty one; \<open>filter'\<close> is the local variable \<^verbatim>\<open>filter\<close>, \<open>None\<close> while
  it is \<^verbatim>\<open>undefined\<close>.
\<close>

definition scan ::
  "'f table \<Rightarrow> 'f list option \<Rightarrow> scan_options option \<Rightarrow> error + service_call" where
  "scan t filters options =
     (let filter_or_error =
            (case filters of
               None \<Rightarrow> Inr None
             | Some fs \<Rightarrow>
                 if length fs = 0 then Inr None
                 else (case createExpression t fs of
                         Inl e \<Rightarrow> Inl e
                       | Inr filterResult \<Rightarrow>
                           Inr (Some \<lparr>expression = result_expression filterResult,
                                      names = attr_names (attributes filterResult),
                                      values' = attr_values (attributes filterResult)\<rparr>)))
      in case filter_or_error of
           Inl e \<Rightarrow> Inl e
         | Inr filter' \<Rightarrow>
             Inr (ServiceScan filter' (options_limit options) (options_pageKey options)
                    (options_scan_indexName options)))"

text \<open>\<^verbatim>\<open>batchWrite(operations)\<close>.\<close>

definition batchWrite :: "'f table \<Rightarrow> batch_write_operation list \<Rightarrow> error + service_call" where
  "batchWrite t ops =
     executeOperation
       ((empty_operation ''batchWrite'')
          \<lparr>op_operations :=
             Some (BatchOperations
               (map (\<lambda>op. if bw_type op = ''put'' then PutRequest (bw_item op)
                          else DeleteRequest (bw_key op)) ops))\<rparr>)"

text \<open>\<^verbatim>\<open>transactWrite(operations)\<close>.\<close>

definition transactWrite :: "'f table \<Rightarrow> transact_item list \<Rightarrow> error + service_call" where
  "transactWrite t ops =
     executeOperation
       ((empty_operation ''transactWrite'')\<lparr>op_operations := Some (TransactOperations ops)\<rparr>)"

section \<open>Vocabulary of the properties\<close>

text \<open>The messages of the three errors \<^verbatim>\<open>validateKey\<close> throws.\<close>

definition validation_messages :: "string list" where
  "validation_messages =
     [''Partition key is required'',
      ''Sort key provided but index does not support sort keys'',
      ''Index requires a sort key but none was provided'']"

text \<open>
  The rejection condition in the words of the specification, to be compared with what
  \<^verbatim>\<open>validateKey\<close> tests: a key component is absent when it was not supplied, and
  the index defines a sort-key attribute when it has an \<^verbatim>\<open>skName\<close>.
\<close>

definition spec_key_rejected :: "primary_key \<Rightarrow> table_index_config \<Rightarrow> bool" where
  "spec_key_rejected key c =
     (pk key = JUndefined
      \<or> (sk key \<noteq> JUndefined \<and> skName c = None)
      \<or> (skName c \<noteq> None \<and> sk key = JUndefined))"

section \<open>Sample inputs\<close>

text \<open>
  A table in the manner of \<^verbatim>\<open>examples/gsi-example.ts\<close>: a primary index with
  partition and sort key, and a secondary index with a partition key only. The
  expression builder of the sample table is a fixed compilation result.
\<close>

definition primary_config :: table_index_config where
  "primary_config = \<lparr>pkName = ''pk'', skName = Some ''sk''\<rparr>"

definition gsi1_config :: table_index_config where
  "gsi1_config = \<lparr>pkName = ''gsi1pk'', skName = None\<rparr>"

definition sample_expression :: expression_result where
  "sample_expression =
     \<lparr>result_expression = ''#n0 = :v0'',
      attributes = \<lparr>attr_names = Some [''#n0'' \<mapsto> ''diet''],
                    attr_values = Some ['':v0'' \<mapsto> JStr ''Carnivore'']\<rparr>\<rparr>"

definition dino_table :: "string table" where
  "dino_table =
     \<lparr>indexes = [''primary'' \<mapsto> primary_config, ''gsi1'' \<mapsto> gsi1_config],
      createExpression = (\<lambda>filters. Inr sample_expression)\<rparr>"

text \<open>A configuration with no entry \<^verbatim>\<open>primary\<close>, and one with an entry of empty name.\<close>

definition gsi_only_table :: "string table" where
  "gsi_only_table =
     \<lparr>indexes = [''gsi1'' \<mapsto> gsi1_config],
      createExpression = (\<lambda>filters. Inr sample_expression)\<rparr>"

definition blank_name_table :: "string table" where
  "blank_name_table =
     \<lparr>indexes = [''primary'' \<mapsto> primary_config, [] \<mapsto> gsi1_config],
      createExpression = (\<lambda>filters. Inr sample_expression)\<rparr>"

text \<open>Keys: a full one, one with a partition key only, and three with empty components.\<close>

definition full_key :: primary_key where
  "full_key = \<lparr>pk = JStr ''DINOSAUR#1'', sk = JStr ''METADATA#1''\<rparr>"

definition pk_only_key :: primary_key where
  "pk_only_key = \<lparr>pk = JStr ''DINOSAUR#1'', sk = JUndefined\<rparr>"

definition empty_pk_key :: primary_key where
  "empty_pk_key = \<lparr>pk = JStr [], sk = JUndefined\<rparr>"

definition empty_sk_key :: primary_key where
  "empty_sk_key = \<lparr>pk = JStr ''DINOSAUR#1'', sk = JStr []\<rparr>"

definition both_empty_key :: primary_key where
  "both_empty_key = \<lparr>pk = JStr [], sk = JStr []\<rparr>"

text \<open>
  A query operation on index \<^verbatim>\<open>gsi2\<close> with limit 10, and the same operation made
  descending and starting from a page cursor.
\<close>

definition sample_key_condition :: compiled_expression where
  "sample_key_condition =
     \<lparr>expression = ''#pk = :pk'', names = Some [''#pk'' \<mapsto> ''gsi2pk''],
      values' = Some ['':pk'' \<mapsto> JStr ''PERIOD#jurassic'']\<rparr>"

definition plain_query :: dynamo_operation where
  "plain_query =
     (empty_operation ''query'')
       \<lparr>op_keyCondition := Some sample_key_condition, op_limit := Some 10,
        op_indexName := Some ''gsi2''\<rparr>"

definition paged_query :: dynamo_operation where
  "paged_query =
     plain_query
       \<lparr>op_sortDirection := Some Descending,
        op_pageCursor := Some [''pk'' \<mapsto> JStr ''DINOSAUR#7'']\<rparr>"

text \<open>An update operation, and a batch with a put, a delete and an entry of another type.\<close>

definition sample_update :: dynamo_operation where
  "sample_update =
     (empty_operation ''update'')
       \<lparr>op_key := Some full_key,
        op_update := Some \<lparr>expression = ''SET #n0 = :v0'',
                            names = Some [''#n0'' \<mapsto> ''habitatId''],
                            values' = Some ['':v0'' \<mapsto> JStr ''H1'']\<rparr>\<rparr>"

definition sample_batch :: "batch_write_operation list" where
  "sample_batch =
     [\<lparr>bw_type = ''put'', bw_item = Some [''pk'' \<mapsto> JStr ''FOSSIL#1''], bw_key = None\<rparr>,
      \<lparr>bw_type = ''delete'', bw_item = None, bw_key = Some full_key\<rparr>,
      \<lparr>bw_type = ''update'', bw_item = None, bw_key = Some pk_only_key\<rparr>]"

section \<open>Auxiliary facts\<close>

lemma index_read_own: "indexes t n = Some c \<Longrightarrow> index_read t n = Some (Configured c)"
  by (simp add: index_read_def)

lemma index_read_primary: "index_read t ''primary'' = map_option Configured (indexes t ''primary'')"
  by (simp add: index_read_def object_prototype_names_def split: option.split)

lemma index_read_undeclared:
  "indexes t n = None \<Longrightarrow> n \<notin> set object_prototype_names \<Longrightarrow> index_read t n = None"
  by (simp add: index_read_def)

lemma getIndexConfig_absent:
  "getIndexConfig t None = Inr (map_option Configured (indexes t ''primary''))"
  by (simp add: getIndexConfig_def index_read_primary)

lemma getIndexConfig_named:
  "n \<noteq> [] \<Longrightarrow>
   getIndexConfig t (Some n) =
     (case index_read t n of
        Some v \<Rightarrow> Inr (Some v)
      | None \<Rightarrow> Inl (Error (''Index '' @ n @ '' does not exist'')))"
  by (simp add: getIndexConfig_def split: option.split)

lemma validateKey_Configured:
  "validateKey key (Some (Configured c)) =
     (if \<not> truthy (pk key) then Inl (Error ''Partition key is required'')
      else if truthy (sk key) \<and> \<not> truthy_string (skName c)
      then Inl (Error ''Sort key provided but index does not support sort keys'')
      else if \<not> truthy (sk key) \<and> truthy_string (skName c)
      then Inl (Error ''Index requires a sort key but none was provided'')
      else Inr ())"
  by (simp add: validateKey_def)

lemma validateKey_falsy_pk:
  "\<not> truthy (pk key) \<Longrightarrow> validateKey key cfg = Inl (Error ''Partition key is required'')"
  by (simp add: validateKey_def)

lemma get_resolved:
  "getIndexConfig t (options_indexName options) = Inr cfg \<Longrightarrow>
   get t key options =
     (case buildKeyFromIndex key cfg of
        Inl e \<Rightarrow> Inl e
      | Inr keyObject \<Rightarrow> Inr (ServiceGet keyObject options))"
  by (simp add: get_def)

section \<open>Index lookup\<close>

text \<open>
  Claim C9. Called with no index name, \<^verbatim>\<open>getIndexConfig\<close> returns the entry named
  \<^verbatim>\<open>primary\<close> of the configuration, whatever the configuration is; when there is no
  such entry it returns \<^verbatim>\<open>undefined\<close> (\<open>Inr None\<close>) and raises nothing.
\<close>

theorem getIndexConfig_default_primary:
  "getIndexConfig t None = Inr (map_option Configured (indexes t ''primary''))
   \<and> (indexes t ''primary'' = None \<longrightarrow> getIndexConfig t None = Inr None)"
  by (simp add: getIndexConfig_absent)

theorem getIndexConfig_default_primary_witness:
  "indexes gsi_only_table ''primary'' = None
   \<and> getIndexConfig gsi_only_table None = Inr None"
  using getIndexConfig_default_primary [of gsi_only_table]
  by (simp add: gsi_only_table_def)

text \<open>
  Claim C3, as amended. For every non-empty index name that has no entry in the
  configuration and is not a property name of the object prototype,
  \<^verbatim>\<open>getIndexConfig\<close> throws ``Index <name> does not exist'', and so does \<^verbatim>\<open>get\<close>
  with that index name, with no call to the store service. For every non-empty name
  with an entry, the lookup returns exactly that entry. The empty name, with an entry
  of its own or not, is taken for no name: the lookup returns the entry \<^verbatim>\<open>primary\<close>.
\<close>

theorem getIndexConfig_named_lookup:
  "(n \<noteq> [] \<and> indexes t n = None \<and> n \<notin> set object_prototype_names \<longrightarrow>
      getIndexConfig t (Some n) = Inl (Error (''Index '' @ n @ '' does not exist''))
      \<and> get t key (Some \<lparr>get_indexName = Some n\<rparr>)
          = Inl (Error (''Index '' @ n @ '' does not exist'')))
   \<and> (m \<noteq> [] \<and> indexes t m = Some c \<longrightarrow>
        getIndexConfig t (Some m) = Inr (Some (Configured c)))
   \<and> getIndexConfig t (Some []) = Inr (map_option Configured (indexes t ''primary''))"
proof (intro conjI impI)
  assume a: "n \<noteq> [] \<and> indexes t n = None \<and> n \<notin> set object_prototype_names"
  then show thrown:
    "getIndexConfig t (Some n) = Inl (Error (''Index '' @ n @ '' does not exist''))"
    by (simp add: getIndexConfig_named index_read_undeclared)
  then show "get t key (Some \<lparr>get_indexName = Some n\<rparr>)
               = Inl (Error (''Index '' @ n @ '' does not exist''))"
    by (simp add: get_def options_indexName_def)
next
  assume "m \<noteq> [] \<and> indexes t m = Some c"
  then show "getIndexConfig t (Some m) = Inr (Some (Configured c))"
    by (simp add: getIndexConfig_named index_read_own)
next
  show "getIndexConfig t (Some []) = Inr (map_option Configured (indexes t ''primary''))"
    by (simp add: getIndexConfig_def index_read_primary)
qed

theorem getIndexConfig_named_lookup_witness:
  "''gsi9'' \<noteq> [] \<and> indexes dino_table ''gsi9'' = None
   \<and> ''gsi9'' \<notin> set object_prototype_names
   \<and> get dino_table full_key (Some \<lparr>get_indexName = Some ''gsi9''\<rparr>)
       = Inl (Error ''Index gsi9 does not exist'')
   \<and> ''gsi1'' \<noteq> [] \<and> indexes dino_table ''gsi1'' = Some gsi1_config
   \<and> getIndexConfig dino_table (Some ''gsi1'') = Inr (Some (Configured gsi1_config))"
  using getIndexConfig_named_lookup [of "''gsi9''" dino_table full_key "''gsi1''" gsi1_config]
  by (simp add: dino_table_def object_prototype_names_def)

text \<open>
  The claim as first stated fails twice. A declared entry whose name is empty is never
  returned: the lookup of that name gives the entry \<^verbatim>\<open>primary\<close>. And a name that is
  not declared but is a property of the object prototype, such as \<^verbatim>\<open>toString\<close>, is
  found by the property read: the lookup returns the inherited value and throws nothing,
  and \<^verbatim>\<open>get\<close> goes on to call the store service, with the partition key under the
  name \<^verbatim>\<open>undefined\<close>.
\<close>

theorem getIndexConfig_lookup_counterexample:
  "indexes blank_name_table [] = Some gsi1_config
   \<and> getIndexConfig blank_name_table (Some []) \<noteq> Inr (Some (Configured gsi1_config))
   \<and> ''toString'' \<noteq> [] \<and> indexes dino_table ''toString'' = None
   \<and> getIndexConfig dino_table (Some ''toString'') = Inr (Some Inherited)
   \<and> get dino_table pk_only_key (Some \<lparr>get_indexName = Some ''toString''\<rparr>)
       = Inr (ServiceGet [''undefined'' \<mapsto> JStr ''DINOSAUR#1'']
                (Some \<lparr>get_indexName = Some ''toString''\<rparr>))"
  by (simp add: blank_name_table_def dino_table_def getIndexConfig_def index_read_def
      object_prototype_names_def gsi1_config_def primary_config_def get_def
      options_indexName_def buildKeyFromIndex_def validateKey_def pk_only_key_def)

section \<open>Key validation\<close>

text \<open>
  Claim C1, as amended. For every key and every index configuration \<open>c\<close> the supplied
  index name resolves to, \<^verbatim>\<open>get\<close> throws one of the three validation errors, before
  any call to the store service, if and only if the partition key is falsy (absent,
  \<^verbatim>\<open>null\<close>, the empty string, zero, \<^verbatim>\<open>NaN\<close> or \<^verbatim>\<open>false\<close>), or the sort key is
  truthy while the index has no non-empty \<^verbatim>\<open>skName\<close>, or the index has a non-empty
  \<^verbatim>\<open>skName\<close> while the sort key is falsy. Otherwise \<^verbatim>\<open>get\<close> calls the store
  service's \<^verbatim>\<open>get\<close> with the options it was given and the key object built from the
  index's attribute names: the partition key under \<^verbatim>\<open>pkName\<close> and, when the index
  has a sort-key attribute, the sort key under \<^verbatim>\<open>skName\<close>.
\<close>

theorem get_throws_iff_key_shape_falsy:
  "getIndexConfig t (options_indexName options) = Inr (Some (Configured c)) \<Longrightarrow>
     ((\<exists>m \<in> set validation_messages. get t key options = Inl (Error m)) \<longleftrightarrow>
        (\<not> truthy (pk key)
         \<or> (truthy (sk key) \<and> \<not> truthy_string (skName c))
         \<or> (\<not> truthy (sk key) \<and> truthy_string (skName c))))
     \<and> (\<not> (\<not> truthy (pk key)
           \<or> (truthy (sk key) \<and> \<not> truthy_string (skName c))
           \<or> (\<not> truthy (sk key) \<and> truthy_string (skName c))) \<longrightarrow>
          get t key options =
            Inr (ServiceGet
                   (if truthy_string (skName c)
                    then [pkName c \<mapsto> pk key, the (skName c) \<mapsto> sk key]
                    else [pkName c \<mapsto> pk key])
                   options))"
  by (auto simp add: get_resolved buildKeyFromIndex_def validateKey_Configured
      validation_messages_def)

theorem get_throws_iff_key_shape_falsy_witness:
  "getIndexConfig dino_table (options_indexName None) = Inr (Some (Configured primary_config))
   \<and> get dino_table full_key None =
       Inr (ServiceGet [''pk'' \<mapsto> JStr ''DINOSAUR#1'', ''sk'' \<mapsto> JStr ''METADATA#1''] None)"
proof -
  have resolved:
    "getIndexConfig dino_table (options_indexName None)
       = Inr (Some (Configured primary_config))"
    by (simp add: getIndexConfig_absent options_indexName_def dino_table_def)
  show ?thesis
    using resolved get_throws_iff_key_shape_falsy [OF resolved, of full_key]
    by (simp add: full_key_def primary_config_def)
qed

text \<open>
  The claim as first stated fails for a partition key that is supplied and empty: on
  the secondary index, which has no sort key, and with no sort key given, none of the
  three conditions of the specification holds, and \<^verbatim>\<open>get\<close> throws all the same.
\<close>

theorem get_rejects_supplied_partition_key_counterexample:
  "getIndexConfig dino_table (options_indexName (Some \<lparr>get_indexName = Some ''gsi1''\<rparr>))
     = Inr (Some (Configured gsi1_config))
   \<and> get dino_table empty_pk_key (Some \<lparr>get_indexName = Some ''gsi1''\<rparr>)
     = Inl (Error ''Partition key is required'')
   \<and> \<not> spec_key_rejected empty_pk_key gsi1_config"
  by (simp add: get_def getIndexConfig_def index_read_def options_indexName_def
      dino_table_def buildKeyFromIndex_def validateKey_def empty_pk_key_def
      gsi1_config_def spec_key_rejected_def)

text \<open>
  Claim C8, as amended. Key validation treats falsy component values as absent. The
  empty string, zero and \<^verbatim>\<open>false\<close> are supplied values and falsy; for every key with
  a falsy partition key, \<^verbatim>\<open>get\<close> (once the index name is resolved) throws ``Partition
  key is required''. For every index with a sort-key attribute (a non-empty
  \<^verbatim>\<open>skName\<close>) and every key with a falsy sort key whose partition key is truthy,
  \<^verbatim>\<open>get\<close> throws the missing-sort-key error; with a falsy partition key the
  partition-key error comes first. \<^verbatim>\<open>buildKeyFromIndex\<close> builds no key object for a
  falsy sort key on an index with a sort-key attribute: it throws a validation error.
  On an index with no sort-key attribute, a key with a truthy partition key and a
  falsy sort key gives the key object with the partition-key attribute alone.
\<close>

theorem falsy_key_components_rejected:
  "(\<forall>v \<in> {JStr [], JNum 0, JBool False}. v \<noteq> JUndefined \<and> \<not> truthy v)
   \<and> (\<not> truthy (pk key1) \<and> getIndexConfig t (options_indexName options1) = Inr cfg1 \<longrightarrow>
        get t key1 options1 = Inl (Error ''Partition key is required''))
   \<and> (truthy (pk key2) \<and> \<not> truthy (sk key2) \<and> truthy_string (skName c2)
        \<and> getIndexConfig t (options_indexName options2) = Inr (Some (Configured c2)) \<longrightarrow>
        get t key2 options2 = Inl (Error ''Index requires a sort key but none was provided''))
   \<and> (\<not> truthy (sk key3) \<and> truthy_string (skName c3) \<longrightarrow>
        (\<exists>m \<in> set validation_messages.
           buildKeyFromIndex key3 (Some (Configured c3)) = Inl (Error m)))
   \<and> (truthy (pk key4) \<and> \<not> truthy (sk key4) \<and> \<not> truthy_string (skName c4) \<longrightarrow>
        buildKeyFromIndex key4 (Some (Configured c4)) = Inr [pkName c4 \<mapsto> pk key4])"
proof (intro conjI impI)
  show "\<forall>v \<in> {JStr [], JNum 0, JBool False}. v \<noteq> JUndefined \<and> \<not> truthy v"
    by simp
next
  assume "\<not> truthy (pk key1) \<and> getIndexConfig t (options_indexName options1) = Inr cfg1"
  then show "get t key1 options1 = Inl (Error ''Partition key is required'')"
    by (simp add: get_resolved buildKeyFromIndex_def validateKey_falsy_pk)
next
  assume "truthy (pk key2) \<and> \<not> truthy (sk key2) \<and> truthy_string (skName c2)
        \<and> getIndexConfig t (options_indexName options2) = Inr (Some (Configured c2))"
  then show "get t key2 options2
               = Inl (Error ''Index requires a sort key but none was provided'')"
    by (simp add: get_resolved buildKeyFromIndex_def validateKey_Configured)
next
  assume "\<not> truthy (sk key3) \<and> truthy_string (skName c3)"
  then show "\<exists>m \<in> set validation_messages.
               buildKeyFromIndex key3 (Some (Configured c3)) = Inl (Error m)"
    by (simp add: buildKeyFromIndex_def validateKey_Configured validation_messages_def)
next
  assume "truthy (pk key4) \<and> \<not> truthy (sk key4) \<and> \<not> truthy_string (skName c4)"
  then show "buildKeyFromIndex key4 (Some (Configured c4)) = Inr [pkName c4 \<mapsto> pk key4]"
    by (simp add: buildKeyFromIndex_def validateKey_Configured)
qed

theorem falsy_key_components_rejected_witness:
  "get dino_table empty_pk_key None = Inl (Error ''Partition key is required'')
   \<and> get dino_table empty_sk_key None
       = Inl (Error ''Index requires a sort key but none was provided'')
   \<and> (\<exists>m \<in> set validation_messages.
         buildKeyFromIndex empty_sk_key (Some (Configured primary_config)) = Inl (Error m))
   \<and> buildKeyFromIndex empty_sk_key (Some (Configured gsi1_config))
       = Inr [''gsi1pk'' \<mapsto> JStr ''DINOSAUR#1'']"
proof -
  have resolved:
    "getIndexConfig dino_table (options_indexName None)
       = Inr (Some (Configured primary_config))"
    by (simp add: getIndexConfig_absent options_indexName_def dino_table_def)
  have keys:
    "\<not> truthy (pk empty_pk_key)" "truthy (pk empty_sk_key)" "\<not> truthy (sk empty_sk_key)"
    "truthy_string (skName primary_config)" "\<not> truthy_string (skName gsi1_config)"
    "pkName gsi1_config = ''gsi1pk''" "pk empty_sk_key = JStr ''DINOSAUR#1''"
    by (simp_all add: empty_pk_key_def empty_sk_key_def primary_config_def gsi1_config_def)
  show ?thesis
    using resolved keys
      falsy_key_components_rejected [of empty_pk_key dino_table None
        "Some (Configured primary_config)" empty_sk_key primary_config None
        empty_sk_key primary_config empty_sk_key gsi1_config]
    by simp
qed

text \<open>
  The claim as first stated fails on the primary index, which has a sort-key attribute.
  A key whose two components are empty gets the partition-key error, not the
  missing-sort-key error. And for a key with an empty sort key
  \<^verbatim>\<open>buildKeyFromIndex\<close> returns no key object with the sort-key attribute left out:
  it throws.
\<close>

theorem falsy_sort_key_counterexample:
  "getIndexConfig dino_table (options_indexName None)
     = Inr (Some (Configured primary_config))
   \<and> truthy_string (skName primary_config)
   \<and> \<not> truthy (sk both_empty_key)
   \<and> get dino_table both_empty_key None = Inl (Error ''Partition key is required'')
   \<and> \<not> truthy (sk empty_sk_key)
   \<and> buildKeyFromIndex empty_sk_key (Some (Configured primary_config))
       = Inl (Error ''Index requires a sort key but none was provided'')"
  by (simp add: getIndexConfig_def index_read_def options_indexName_def dino_table_def
      primary_config_def both_empty_key_def empty_sk_key_def get_def
      buildKeyFromIndex_def validateKey_def)

text \<open>
  Claim C2, at the failing input. The primary index of the sample table has a sort-key
  attribute and the key has no sort key: \<^verbatim>\<open>validateKey\<close> rejects the pair, and
  \<^verbatim>\<open>get\<close> throws on it, yet \<^verbatim>\<open>delete\<close> validates nothing and hands the key,
  unchanged, to the store service's \<^verbatim>\<open>delete\<close>.
\<close>

theorem delete_skips_key_validation:
  "validateKey pk_only_key (index_read dino_table ''primary'')
     = Inl (Error ''Index requires a sort key but none was provided'')
   \<and> get dino_table pk_only_key None
     = Inl (Error ''Index requires a sort key but none was provided'')
   \<and> delete dino_table pk_only_key = Inr (ServiceDelete (Some pk_only_key))"
  by (simp add: validateKey_def index_read_def dino_table_def primary_config_def
      pk_only_key_def delete_def executeOperation_def empty_operation_def get_def
      getIndexConfig_def options_indexName_def buildKeyFromIndex_def)

section \<open>Scan\<close>

text \<open>
  Claim C4. For every call to \<^verbatim>\<open>scan\<close> whose filter list is absent or empty, the
  request handed to the store service has no filter at all (the field is
  \<^verbatim>\<open>undefined\<close>, here \<open>None\<close>). For every non-empty filter list that the expression
  builder compiles, the compiled expression, its names map and its values map are
  forwarded as the filter. Limit, page key and index name of the options go along in
  both cases.
\<close>

theorem scan_filter_forwarding:
  "((filters = None \<or> filters = Some []) \<longrightarrow>
      scan t filters options =
        Inr (ServiceScan None (options_limit options) (options_pageKey options)
               (options_scan_indexName options)))
   \<and> (fs \<noteq> [] \<and> createExpression t fs = Inr r \<longrightarrow>
      scan t (Some fs) options =
        Inr (ServiceScan
               (Some \<lparr>expression = result_expression r,
                      names = attr_names (attributes r),
                      values' = attr_values (attributes r)\<rparr>)
               (options_limit options) (options_pageKey options)
               (options_scan_indexName options)))"
  by (auto simp add: scan_def)

theorem scan_filter_forwarding_witness:
  "scan dino_table None None = Inr (ServiceScan None None None None)
   \<and> [''diet''] \<noteq> [] \<and> createExpression dino_table [''diet''] = Inr sample_expression
   \<and> scan dino_table (Some [''diet''])
        (Some \<lparr>scan_limit = Some 5, scan_pageKey = None, scan_indexName = Some ''gsi1''\<rparr>) =
        Inr (ServiceScan
               (Some \<lparr>expression = ''#n0 = :v0'',
                      names = Some [''#n0'' \<mapsto> ''diet''],
                      values' = Some ['':v0'' \<mapsto> JStr ''Carnivore'']\<rparr>)
               (Some 5) None (Some ''gsi1''))"
  using scan_filter_forwarding [of None dino_table None "[''diet'']" sample_expression]
    scan_filter_forwarding [of None dino_table
      "Some \<lparr>scan_limit = Some 5, scan_pageKey = None, scan_indexName = Some ''gsi1''\<rparr>"
      "[''diet'']" sample_expression]
  by (simp add: dino_table_def sample_expression_def options_limit_def options_pageKey_def
      options_scan_indexName_def)

section \<open>Dispatch of operations\<close>

text \<open>
  Claim C5, as amended. For every query operation executed through the table, the
  store service's query call receives the operation's key condition, filter, limit
  and index name, and nothing else: whatever sort direction and pagination cursor the
  operation carries, the call is the same.
\<close>

theorem query_call_arguments:
  "op_type operation = ''query'' \<Longrightarrow>
   executeOperation operation =
     Inr (ServiceQuery (op_keyCondition operation) (op_filter operation)
            (op_limit operation) (op_indexName operation))
   \<and> executeOperation (operation\<lparr>op_sortDirection := d, op_pageCursor := p\<rparr>)
       = executeOperation operation"
  by (simp add: executeOperation_def)

theorem query_call_arguments_witness:
  "op_type plain_query = ''query''
   \<and> executeOperation plain_query
       = Inr (ServiceQuery (Some sample_key_condition) None (Some 10) (Some ''gsi2''))
   \<and> executeOperation
        (plain_query\<lparr>op_sortDirection := Some Ascending, op_pageCursor := Some Map.empty\<rparr>)
       = Inr (ServiceQuery (Some sample_key_condition) None (Some 10) (Some ''gsi2''))"
proof -
  have tag: "op_type plain_query = ''query''"
    by (simp add: plain_query_def empty_operation_def)
  have fields:
    "op_keyCondition plain_query = Some sample_key_condition" "op_filter plain_query = None"
    "op_limit plain_query = Some 10" "op_indexName plain_query = Some ''gsi2''"
    by (simp_all add: plain_query_def empty_operation_def)
  show ?thesis
    using tag fields
      query_call_arguments [OF tag, where d = "Some Ascending" and p = "Some Map.empty"]
    by simp
qed

text \<open>
  The claim as first stated fails: the query made descending and starting from a page
  cursor reaches the store service as the very call of the plain query, so the call
  carries neither the sort direction nor the cursor.
\<close>

theorem query_call_drops_sort_and_cursor_counterexample:
  "executeOperation paged_query
     = Inr (ServiceQuery (Some sample_key_condition) None (Some 10) (Some ''gsi2''))
   \<and> executeOperation plain_query = executeOperation paged_query
   \<and> op_sortDirection paged_query = Some Descending
   \<and> op_sortDirection plain_query = None
   \<and> op_pageCursor paged_query = Some [''pk'' \<mapsto> JStr ''DINOSAUR#7'']
   \<and> op_pageCursor plain_query = None"
  by (simp add: executeOperation_def paged_query_def plain_query_def empty_operation_def)

text \<open>
  Claim C6. For every update operation, \<^verbatim>\<open>executeOperation\<close> calls the store
  service's \<^verbatim>\<open>update\<close> with the operation's key, update expression and condition
  unchanged and with \<^verbatim>\<open>returnValues\<close> set to \<^verbatim>\<open>"ALL_NEW"\<close>.
\<close>

theorem update_requests_all_new:
  "op_type operation = ''update'' \<Longrightarrow>
   executeOperation operation =
     Inr (ServiceUpdate (op_key operation) (op_update operation) (op_condition operation)
            ''ALL_NEW'')"
  by (simp add: executeOperation_def)

theorem update_requests_all_new_witness:
  "op_type sample_update = ''update''
   \<and> executeOperation sample_update =
       Inr (ServiceUpdate (Some full_key)
              (Some \<lparr>expression = ''SET #n0 = :v0'',
                     names = Some [''#n0'' \<mapsto> ''habitatId''],
                     values' = Some ['':v0'' \<mapsto> JStr ''H1'']\<rparr>)
              None ''ALL_NEW'')"
proof -
  have tag: "op_type sample_update = ''update''"
    by (simp add: sample_update_def empty_operation_def)
  show ?thesis
    using tag update_requests_all_new [OF tag]
    by (simp add: sample_update_def empty_operation_def)
qed

text \<open>
  Claim C7. For every operation whose tag is one of \<^verbatim>\<open>put\<close>, \<^verbatim>\<open>update\<close>,
  \<^verbatim>\<open>delete\<close>, \<^verbatim>\<open>query\<close>, \<^verbatim>\<open>batchWrite\<close>, \<^verbatim>\<open>transactWrite\<close>,
  \<^verbatim>\<open>executeOperation\<close> makes one call, to the store-service method of that name, and
  does not reach the default branch; for an operation with any other tag it throws
  ``Unknown operation type'' and makes no call.
\<close>

theorem executeOperation_dispatch:
  "(op_type a \<in> set operation_types \<longrightarrow>
      (\<exists>c. executeOperation a = Inr c \<and> service_method c = op_type a))
   \<and> (op_type b \<notin> set operation_types \<longrightarrow>
      executeOperation b = Inl (Error ''Unknown operation type''))"
  by (auto simp add: executeOperation_def operation_types_def)

theorem executeOperation_dispatch_witness:
  "op_type sample_update \<in> set operation_types
   \<and> (\<exists>c. executeOperation sample_update = Inr c \<and> service_method c = ''update'')
   \<and> op_type (empty_operation ''scan'') \<notin> set operation_types
   \<and> executeOperation (empty_operation ''scan'') = Inl (Error ''Unknown operation type'')"
  using executeOperation_dispatch [of sample_update "empty_operation ''scan''"]
  by (simp add: sample_update_def empty_operation_def operation_types_def)

section \<open>Batch writes\<close>

text \<open>
  Claim C10. For every list of batch-write operations, \<^verbatim>\<open>batchWrite\<close> hands the
  store service a request list of the same length and order, in which an input of type
  \<^verbatim>\<open>put\<close> has become the entry \<^verbatim>\<open>{put: item}\<close> with that input's item, and an input
  of any other type has become the entry \<^verbatim>\<open>{delete: key}\<close> with that input's key.
\<close>

theorem batchWrite_requests:
  "\<exists>requests.
     batchWrite t ops = Inr (ServiceBatchWrite (Some (BatchOperations requests)))
     \<and> length requests = length ops
     \<and> (\<forall>i < length ops.
          requests ! i =
            (if bw_type (ops ! i) = ''put'' then PutRequest (bw_item (ops ! i))
             else DeleteRequest (bw_key (ops ! i))))"
  by (simp add: batchWrite_def executeOperation_def empty_operation_def)

theorem batchWrite_requests_witness:
  "batchWrite dino_table sample_batch =
     Inr (ServiceBatchWrite (Some (BatchOperations
       [PutRequest (Some [''pk'' \<mapsto> JStr ''FOSSIL#1'']),
        DeleteRequest (Some full_key),
        DeleteRequest (Some pk_only_key)])))"
proof -
  obtain requests where
    call: "batchWrite dino_table sample_batch
             = Inr (ServiceBatchWrite (Some (BatchOperations requests)))"
    and len: "length requests = length sample_batch"
    and nth: "\<forall>i < length sample_batch.
          requests ! i =
            (if bw_type (sample_batch ! i) = ''put''
             then PutRequest (bw_item (sample_batch ! i))
             else DeleteRequest (bw_key (sample_batch ! i)))"
    using batchWrite_requests [of dino_table sample_batch] by blast
  have three: "length requests = 3"
    using len by (simp add: sample_batch_def)
  have "requests ! 0 = PutRequest (Some [''pk'' \<mapsto> JStr ''FOSSIL#1''])"
    using nth by (simp add: sample_batch_def)
  moreover have "requests ! 1 = DeleteRequest (Some full_key)"
    using nth by (simp add: sample_batch_def)
  moreover have "requests ! 2 = DeleteRequest (Some pk_only_key)"
    using nth by (simp add: sample_batch_def)
  ultimately have
    "requests = [PutRequest (Some [''pk'' \<mapsto> JStr ''FOSSIL#1'']),
                 DeleteRequest (Some full_key), DeleteRequest (Some pk_only_key)]"
    using three
    by (auto simp add: list_eq_iff_nth_eq nth_Cons' less_Suc_eq numeral_3_eq_3
        numeral_2_eq_2)
  with call show ?thesis by simp
qed

end
